theory Spec2Isabelle
  imports Complex_Main
begin

section \<open>Reviews and product ratings (app/models/reviews.py, app/routers/reviews.py)\<close>

text \<open>
  Text supplied by a client (a comment, a description, an e-mail address) is a Python
  \<open>str\<close>, a sequence of Unicode code points; it is modelled as a list of code points so
  that lengths and slices count what Python counts. Fixed ASCII literals of the source
  are HOL strings.
\<close>

type_synonym unicode = "nat list"

text \<open>
  The \<open>reviews\<close> table: one record per row, with the columns of the \<open>Review\<close> model.
  The column \<open>id\<close> is called \<open>review_id\<close> here, \<open>id\<close> being the identity function of HOL.
  A \<open>DateTime\<close> is a point on an integer time line.
\<close>

record review =
  review_id :: int
  user_id :: int
  product_id :: int
  comment :: "unicode option"
  comment_date :: int
  grade :: int
  is_active :: bool

text \<open>
  Modelled from the spec: the \<open>Product\<close> and \<open>User\<close> models (app/models/products.py,
  app/models/users.py) are imported by the router but are not among the sources. The
  specification gives a product an identity, an active flag and the derived \<open>rating\<close>
  field, and a user an identity and a role; these are the columns the review router reads
  and writes (\<open>Product.id\<close>, \<open>Product.is_active\<close>, \<open>product.rating\<close>, \<open>current_user.id\<close>,
  \<open>current_user.role\<close>). The \<open>rating\<close> field holds the number the handler assigns to it.
  The current user is what the authentication dependency (app/auth.py) hands to the
  handler, an argument of the model.
\<close>

record product =
  p_id :: int
  p_is_active :: bool
  rating :: rat

record user =
  u_id :: int
  role :: string

text \<open>
  Modelled from the spec: the request schema \<open>ReviewCreate\<close> (app/schemas.py) is not among
  the sources. \<open>create_review\<close> passes its dumped fields to the \<open>Review\<close> constructor and
  reads \<open>product_id\<close> from it; by the specification the new review is persisted with
  \<open>active = true\<close>, the author is the caller and the id and timestamp are assigned by the
  server, which leaves the product, the comment and the grade to the client.
\<close>

record review_create =
  rc_product_id :: int
  rc_comment :: "unicode option"
  rc_grade :: int

text \<open>
  The stored state: both tables, rows in insertion order, and the sequence that hands out
  the primary keys of \<open>reviews\<close>.
\<close>

record db =
  reviews :: "review list"
  products :: "product list"
  reviews_id_seq :: int

text \<open>
  What a handler can raise: the HTTP errors it raises itself, the \<open>AttributeError\<close> of
  an assignment to \<open>None\<close>, and the \<open>DBAPIError\<close> in which SQLAlchemy wraps a statement
  the driver or the database refuses.
\<close>

datatype error =
  HTTPException nat string
  | AttributeError
  | DBAPIError

subsection \<open>What the database accepts\<close>

text \<open>
  The integer columns (\<open>id\<close>, \<open>user_id\<close>, \<open>product_id\<close>, \<open>grade\<close>) are \<open>INTEGER\<close>, 32 bits
  wide, while a Python \<open>int\<close> is unbounded: the driver refuses to bind a value outside
  the range to such a column or to a comparison with it, and the statement is never run.
\<close>

definition int32_ok :: "int \<Rightarrow> bool" where
  "int32_ok x = (- 2147483648 \<le> x \<and> x \<le> 2147483647)"

text \<open>A \<open>Text\<close> value cannot hold the code point 0.\<close>

fun text_ok :: "unicode option \<Rightarrow> bool" where
  "text_ok None = True"
| "text_ok (Some s) = (0 \<notin> set s)"

text \<open>The row an \<open>INSERT INTO reviews\<close> can store.\<close>

definition storable :: "review \<Rightarrow> bool" where
  "storable r =
     (int32_ok (review_id r) \<and> int32_ok (user_id r) \<and> int32_ok (product_id r)
      \<and> int32_ok (grade r) \<and> text_ok (comment r))"

subsection \<open>Queries\<close>

text \<open>
  The database is PostgreSQL (app/database.py). Its \<open>AVG\<close> over an \<open>INTEGER\<close> column
  divides the sum by the count as \<open>numeric\<close> values, and a \<open>numeric\<close> quotient has finitely
  many decimal places. A \<open>numeric\<close> is kept in digits of base 10000; the weight of a
  natural number is the position of its leading such digit.
\<close>

fun numeric_weight :: "nat \<Rightarrow> nat" where
  "numeric_weight n = (if n < 10000 then 0 else Suc (numeric_weight (n div 10000)))"

fun first_digit :: "nat \<Rightarrow> nat" where
  "first_digit n = (if n < 10000 then n else first_digit (n div 10000))"

text \<open>
  The number of decimal places of the quotient of two integers: enough for 16
  significant digits, estimated from the weights and leading digits of dividend and
  divisor, never negative and never above 1000.
\<close>

definition select_div_scale :: "nat \<Rightarrow> nat \<Rightarrow> nat" where
  "select_div_scale a b =
     (let qweight = int (numeric_weight a) - int (numeric_weight b)
                      - (if first_digit a \<le> first_digit b then 1 else 0);
          rscale = 16 - qweight * 4
      in nat (min (max rscale 0) 1000))"

text \<open>
  The quotient of an integer by a positive count, rounded at that scale to the nearest
  value, a tie away from zero.
\<close>

definition numeric_div :: "int \<Rightarrow> nat \<Rightarrow> rat" where
  "numeric_div a b =
     (let k = select_div_scale (nat \<bar>a\<bar>) b;
          q = (2 * nat \<bar>a\<bar> * 10 ^ k + b) div (2 * b)
      in of_int (sgn a * int q) / 10 ^ k)"

text \<open>SQL \<open>AVG\<close>: \<open>NULL\<close> over no rows, the \<open>numeric\<close> quotient of sum and count otherwise.\<close>

fun avg :: "int list \<Rightarrow> rat option" where
  "avg [] = None"
| "avg (g # gs) = Some (numeric_div (sum_list (g # gs)) (length (g # gs)))"

text \<open>
  \<open>select(func.avg(Review.grade)).where(Review.product_id == pid, Review.is_active == True)\<close>
\<close>

definition select_avg_grade :: "db \<Rightarrow> int \<Rightarrow> rat option" where
  "select_avg_grade st pid =
     avg (map grade (filter (\<lambda>r. product_id r = pid \<and> is_active r) (reviews st)))"

text \<open>
  \<open>result.scalar() or 0.0\<close>: Python's \<open>or\<close> yields the right operand when the left one
  is falsy, which \<open>None\<close> and a zero number both are.
\<close>

fun or_zero :: "rat option \<Rightarrow> rat" where
  "or_zero None = 0"
| "or_zero (Some a) = (if a = 0 then 0 else a)"

text \<open>\<open>select(Product).where(Product.id == pid, Product.is_active == True)\<close>, then \<open>first()\<close>.\<close>

definition select_active_product :: "db \<Rightarrow> int \<Rightarrow> product option" where
  "select_active_product st pid =
     find (\<lambda>p. p_id p = pid \<and> p_is_active p) (products st)"

text \<open>\<open>db.get(Product, pid)\<close>: the row with that primary key, or \<open>None\<close>.\<close>

definition db_get_product :: "db \<Rightarrow> int \<Rightarrow> product option" where
  "db_get_product st pid = find (\<lambda>p. p_id p = pid) (products st)"

text \<open>\<open>product.rating = avg_rating\<close>, written back to the row with the product's key.\<close>

definition set_rating :: "db \<Rightarrow> int \<Rightarrow> rat \<Rightarrow> db" where
  "set_rating st pid r =
     st\<lparr>products := map (\<lambda>p. if p_id p = pid then p\<lparr>rating := r\<rparr> else p) (products st)\<rparr>"

text \<open>
  \<open>review.is_active = False\<close>, written back to the row with the review's key.
\<close>

definition deactivate_review :: "db \<Rightarrow> int \<Rightarrow> db" where
  "deactivate_review st k =
     st\<lparr>reviews := map (\<lambda>r. if review_id r = k then r\<lparr>is_active := False\<rparr> else r) (reviews st)\<rparr>"

subsection \<open>Listings\<close>

definition get_all_reviews :: "db \<Rightarrow> review list" where
  "get_all_reviews st = filter is_active (reviews st)"

definition get_all_reviews_of_product :: "db \<Rightarrow> int \<Rightarrow> error + review list" where
  "get_all_reviews_of_product st pid =
     (if \<not> int32_ok pid then Inl DBAPIError
      else
        case select_active_product st pid of
          None \<Rightarrow> Inl (HTTPException 404 ''Product not found or inactive'')
        | Some _ \<Rightarrow> Inr (filter (\<lambda>r. product_id r = pid \<and> is_active r) (reviews st)))"

subsection \<open>Mutations\<close>

text \<open>
  Each handler returns its response together with the stored state after the request.
  A handler that raises never reaches \<open>db.commit()\<close>, so the stored state is then the
  one it started from.

  The session is made by \<open>async_session_maker\<close> (app/database.py), an
  \<open>async_sessionmaker\<close> that leaves \<open>autoflush\<close> at its default (on): the pending
  INSERT of \<open>create_review\<close> and the pending UPDATE of \<open>delete_review\<close> are sent to the
  database before the \<open>AVG\<close> query runs, so the query sees them. The INSERT fills the
  defaults of the model: the key from the sequence, \<open>comment_date\<close> from the clock
  (the argument \<open>now\<close>) and \<open>is_active = True\<close>.

  The first statement of each handler binds an id that the client chose, and fails with
  \<open>DBAPIError\<close> when the id is outside the \<open>INTEGER\<close> range; so does the INSERT of a row
  that is not storable. The later statements of a handler bind keys read from stored
  rows.
\<close>

definition create_review :: "int \<Rightarrow> db \<Rightarrow> review_create \<Rightarrow> user \<Rightarrow> (error + review) \<times> db" where
  "create_review now st c current_user =
     (if \<not> int32_ok (rc_product_id c) then (Inl DBAPIError, st)
      else
        case select_active_product st (rc_product_id c) of
          None \<Rightarrow> (Inl (HTTPException 404 ''Product not found or inactive''), st)
        | Some _ \<Rightarrow>
            let db_review = \<lparr>review_id = reviews_id_seq st, user_id = u_id current_user,
                             product_id = rc_product_id c, comment = rc_comment c,
                             comment_date = now, grade = rc_grade c, is_active = True\<rparr>
            in if \<not> storable db_review then (Inl DBAPIError, st)
               else
                 let st1 = st\<lparr>reviews := reviews st @ [db_review],
                              reviews_id_seq := reviews_id_seq st + 1\<rparr>;
                     avg_rating = or_zero (select_avg_grade st1 (rc_product_id c))
                 in (case db_get_product st1 (rc_product_id c) of
                       None \<Rightarrow> (Inl AttributeError, st)
                     | Some _ \<Rightarrow>
                         (Inr db_review, set_rating st1 (rc_product_id c) avg_rating)))"

definition delete_review :: "db \<Rightarrow> int \<Rightarrow> user \<Rightarrow> (error + (string \<times> string) list) \<times> db" where
  "delete_review st rid current_user =
     (if \<not> int32_ok rid then (Inl DBAPIError, st)
      else
        case find (\<lambda>r. review_id r = rid \<and> is_active r) (reviews st) of
          None \<Rightarrow> (Inl (HTTPException 404 ''Review not found or inactive''), st)
        | Some rv \<Rightarrow>
            if user_id rv \<noteq> u_id current_user \<and> role current_user \<noteq> ''admin''
            then (Inl (HTTPException 403 ''User is not admin or author''), st)
            else
              let st1 = deactivate_review st (review_id rv);
                  avg_rating = or_zero (select_avg_grade st1 (product_id rv))
              in (case db_get_product st1 (product_id rv) of
                    None \<Rightarrow> (Inl AttributeError, st)
                  | Some _ \<Rightarrow> (Inr [(''Message'', ''Review deleted'')],
                               set_rating st1 (product_id rv) avg_rating)))"


subsection \<open>The rating the specification asks for\<close>

text \<open>
  The reviews a product's rating is taken over, and the arithmetic mean of their grades,
  written from the specification's words to be compared with what the handlers store.
\<close>

definition active_reviews_of :: "db \<Rightarrow> int \<Rightarrow> review list" where
  "active_reviews_of st pid = filter (\<lambda>r. product_id r = pid \<and> is_active r) (reviews st)"

definition mean_grade :: "review list \<Rightarrow> rat" where
  "mean_grade rs = of_int (sum_list (map grade rs)) / of_int (int (length rs))"

text \<open>
  The stored rating \<open>r\<close> is the mean of the reviews \<open>rs\<close> as far as a \<open>numeric\<close> quotient
  can be: 0 for no reviews; otherwise a number with \<open>k\<close> decimal places, \<open>k\<close> being the
  scale of the quotient, that is within half a unit of the last place of the mean and
  is the mean itself when that has no more than \<open>k\<close> decimal places. The scale is at
  least 16 for a mean below 10000 in absolute value.
\<close>

definition mean_at_scale :: "review list \<Rightarrow> rat \<Rightarrow> bool" where
  "mean_at_scale rs r =
     (if rs = [] then r = 0
      else
        let k = select_div_scale (nat \<bar>sum_list (map grade rs)\<bar>) (length rs)
        in r * 10 ^ k \<in> \<int>
           \<and> 2 * 10 ^ k * \<bar>r - mean_grade rs\<bar> \<le> 1
           \<and> (mean_grade rs * 10 ^ k \<in> \<int> \<longrightarrow> r = mean_grade rs)
           \<and> (\<bar>mean_grade rs\<bar> < 10000 \<longrightarrow> 16 \<le> k))"


subsection \<open>Example data\<close>

text \<open>
  Product 1 with the reviews of the specification's scenario (grades 4 and 2, both written
  by user 10), in the states the scenario passes through.
\<close>

definition buyer :: user where
  "buyer = \<lparr>u_id = 10, role = ''buyer''\<rparr>"

definition other_buyer :: user where
  "other_buyer = \<lparr>u_id = 11, role = ''buyer''\<rparr>"

definition admin :: user where
  "admin = \<lparr>u_id = 12, role = ''admin''\<rparr>"

definition review_4 :: review where
  "review_4 = \<lparr>review_id = 1, user_id = 10, product_id = 1, comment = None,
                comment_date = 100, grade = 4, is_active = True\<rparr>"

definition review_2 :: review where
  "review_2 = \<lparr>review_id = 2, user_id = 10, product_id = 1, comment = None,
                comment_date = 200, grade = 2, is_active = True\<rparr>"

definition db_one_review :: db where
  "db_one_review = \<lparr>reviews = [review_4],
                     products = [\<lparr>p_id = 1, p_is_active = True, rating = 4\<rparr>],
                     reviews_id_seq = 2\<rparr>"

definition db_two_reviews :: db where
  "db_two_reviews = \<lparr>reviews = [review_4, review_2],
                      products = [\<lparr>p_id = 1, p_is_active = True, rating = 3\<rparr>],
                      reviews_id_seq = 3\<rparr>"

definition db_second_deleted :: db where
  "db_second_deleted = \<lparr>reviews = [review_4, review_2\<lparr>is_active := False\<rparr>],
                         products = [\<lparr>p_id = 1, p_is_active = True, rating = 4\<rparr>],
                         reviews_id_seq = 3\<rparr>"

definition db_all_deleted :: db where
  "db_all_deleted = \<lparr>reviews = [review_4\<lparr>is_active := False\<rparr>],
                      products = [\<lparr>p_id = 1, p_is_active = True, rating = 0\<rparr>],
                      reviews_id_seq = 2\<rparr>"

definition db_inactive_product :: db where
  "db_inactive_product = \<lparr>reviews = [review_4],
                           products = [\<lparr>p_id = 1, p_is_active = False, rating = 4\<rparr>],
                           reviews_id_seq = 2\<rparr>"

text \<open>
  Product 1 with two active reviews of grades 1 and 2, and the state after a third review
  of grade 2 has been created: the mean 5/3 has no finite decimal expansion.
\<close>

definition review_a :: review where
  "review_a = \<lparr>review_id = 1, user_id = 10, product_id = 1, comment = None,
                comment_date = 100, grade = 1, is_active = True\<rparr>"

definition review_b :: review where
  "review_b = \<lparr>review_id = 2, user_id = 11, product_id = 1, comment = None,
                comment_date = 200, grade = 2, is_active = True\<rparr>"

definition review_c :: review where
  "review_c = \<lparr>review_id = 3, user_id = 10, product_id = 1, comment = None,
                comment_date = 300, grade = 2, is_active = True\<rparr>"

definition db_grades_1_2 :: db where
  "db_grades_1_2 = \<lparr>reviews = [review_a, review_b],
                     products = [\<lparr>p_id = 1, p_is_active = True, rating = 3 / 2\<rparr>],
                     reviews_id_seq = 3\<rparr>"

definition db_grades_1_2_2 :: db where
  "db_grades_1_2_2 = \<lparr>reviews = [review_a, review_b, review_c],
                       products = [\<lparr>p_id = 1, p_is_active = True,
                                    rating = 16666666666666667 / 10000000000000000\<rparr>],
                       reviews_id_seq = 4\<rparr>"

section \<open>Payment initiation (app/payments.py)\<close>

subsection \<open>Decimal amounts and their two-place format\<close>

text \<open>
  A Python \<open>Decimal\<close> is a sign, a coefficient and an exponent, standing for the number
  \<open>\<plusminus> coefficient \<times> 10 ^ exponent\<close> (the sign flag is set for negative values), or one of
  the special values (infinities and NaNs), which keep a sign and the text Python prints
  for their absolute value.
\<close>

datatype decimal =
  Finite bool nat int
  | Special bool string

definition digit_char :: "nat \<Rightarrow> char" where
  "digit_char d = ''0123456789'' ! (d mod 10)"

text \<open>The decimal numeral of a natural number, as \<open>str\<close> prints it.\<close>

fun str_nat :: "nat \<Rightarrow> string" where
  "str_nat n = (if n < 10 then [digit_char n] else str_nat (n div 10) @ [digit_char n])"

text \<open>
  Dropping the last \<open>k\<close> digits of a coefficient under \<open>ROUND_HALF_EVEN\<close>, the rounding
  of the default decimal context: to the nearest, a tie to the even neighbour.
\<close>

definition round_half_even :: "nat \<Rightarrow> nat \<Rightarrow> nat" where
  "round_half_even c k =
     (let q = c div 10 ^ k; r = c mod 10 ^ k
      in if 2 * r > 10 ^ k \<or> (2 * r = 10 ^ k \<and> odd q) then q + 1 else q)"

text \<open>
  The coefficient after rescaling to exponent \<open>-2\<close>: zeros are appended when the
  exponent is larger, digits are rounded away when it is smaller.
\<close>

definition rescale2 :: "nat \<Rightarrow> int \<Rightarrow> nat" where
  "rescale2 c e =
     (if - 2 \<le> e then c * 10 ^ nat (e + 2) else round_half_even c (nat (- 2 - e)))"

text \<open>
  \<open>f"{amount:.2f}"\<close>: a finite value is rescaled to two places and printed as sign,
  integer digits, point, two digits; a special value is printed as it is, whatever the
  precision.
\<close>

fun format_2f :: "decimal \<Rightarrow> string" where
  "format_2f (Finite s c e) =
     (let n = rescale2 c e
      in (if s then ''-'' else '''') @ str_nat (n div 100) @ ''.''
           @ [digit_char (n div 10), digit_char n])"
| "format_2f (Special s body) = (if s then ''-'' else '''') @ body"

subsection \<open>Settings, request and response\<close>

text \<open>
  Modelled from the spec: the settings module app/config.py is not among the sources. By
  the specification the shop id and the secret key "must be configured" and may be
  "absent", and the return URL is configured too: each setting is a string or unset
  (\<open>None\<close>).
\<close>

record config =
  YOOKASSA_SHOP_ID :: "string option"
  YOOKASSA_SECRET_KEY :: "string option"
  YOOKASSA_RETURN_URL :: "string option"

text \<open>Python's \<open>not x\<close> on such a setting: true for \<open>None\<close> and for the empty string.\<close>

fun falsy :: "string option \<Rightarrow> bool" where
  "falsy None = True"
| "falsy (Some s) = (s = [])"

text \<open>The request body, one record per nested dictionary of the source.\<close>

record money =
  amount_value :: string
  currency :: string

record confirmation =
  confirmation_type :: string
  return_url :: "string option"

record receipt_item =
  item_description :: unicode
  quantity :: string
  item_amount :: money
  vat_code :: int
  payment_mode :: string
  payment_subject :: string

record receipt =
  customer_email :: unicode
  items :: "receipt_item list"

record payload =
  amount :: money
  confirmation :: confirmation
  capture :: bool
  description :: unicode
  metadata_order_id :: int
  receipt :: receipt

text \<open>
  What \<open>Payment.create\<close> returns: the payment's id and status, and its confirmation
  object if any, with the confirmation URL if it has one.
\<close>

record payment =
  payment_id :: string
  payment_status :: string
  payment_confirmation :: "string option option"

record payment_info =
  info_id :: string
  info_status :: string
  info_confirmation_url :: "string option"

datatype payment_error =
  RuntimeError
  | GatewayFailure string

text \<open>
  What the function touches outside itself: the two global fields of the SDK's
  \<open>Configuration\<close>, and the gateway, seen as the list of the requests sent to it so far,
  each a payload with its idempotence key.
\<close>

record world =
  account_id :: "string option"
  secret_key :: "string option"
  requests :: "(payload \<times> string) list"

subsection \<open>\<open>create_yookassa_payment\<close>\<close>

definition build_payload :: "config \<Rightarrow> int \<Rightarrow> decimal \<Rightarrow> unicode \<Rightarrow> unicode \<Rightarrow> payload" where
  "build_payload cfg order_id amt user_email descr =
     \<lparr>amount = \<lparr>amount_value = format_2f amt, currency = ''RUB''\<rparr>,
      confirmation = \<lparr>confirmation_type = ''redirect'',
                      return_url = YOOKASSA_RETURN_URL cfg\<rparr>,
      capture = True,
      description = descr,
      metadata_order_id = order_id,
      receipt =
        \<lparr>customer_email = user_email,
         items =
           [\<lparr>item_description = take 128 descr,
             quantity = ''1.00'',
             item_amount = \<lparr>amount_value = format_2f amt, currency = ''RUB''\<rparr>,
             vat_code = 1,
             payment_mode = ''full_prepayment'',
             payment_subject = ''commodity''\<rparr>]\<rparr>\<rparr>"

text \<open>
  The gateway's answer to a request is the argument \<open>gateway\<close>: a payment, or the
  exception the SDK raises. The idempotence key \<open>str(uuid4())\<close> is drawn from the
  operating system's randomness inside the call; the model takes the drawn key as the
  argument \<open>idempotence_key\<close>. The function returns its result and the world after the
  call.
\<close>

definition create_yookassa_payment ::
  "config \<Rightarrow> (payload \<Rightarrow> string \<Rightarrow> string + payment) \<Rightarrow> string \<Rightarrow> world
     \<Rightarrow> int \<Rightarrow> decimal \<Rightarrow> unicode \<Rightarrow> unicode \<Rightarrow> (payment_error + payment_info) \<times> world" where
  "create_yookassa_payment cfg gateway idempotence_key w order_id amt user_email descr =
     (if falsy (YOOKASSA_SHOP_ID cfg) \<or> falsy (YOOKASSA_SECRET_KEY cfg)
      then (Inl RuntimeError, w)
      else
        let w1 = w\<lparr>account_id := YOOKASSA_SHOP_ID cfg,
                   secret_key := YOOKASSA_SECRET_KEY cfg\<rparr>;
            p = build_payload cfg order_id amt user_email descr;
            w2 = w1\<lparr>requests := requests w1 @ [(p, idempotence_key)]\<rparr>
        in (case gateway p idempotence_key of
              Inl e \<Rightarrow> (Inl (GatewayFailure e), w2)
            | Inr pm \<Rightarrow>
                (Inr \<lparr>info_id = payment_id pm,
                      info_status = payment_status pm,
                      info_confirmation_url =
                        (case payment_confirmation pm of None \<Rightarrow> None | Some url \<Rightarrow> url)\<rparr>,
                 w2)))"

subsection \<open>What the specification asks of the amount string\<close>

text \<open>
  A fixed two-decimal string: an optional minus sign, at least one digit, a point, and
  exactly two digits.
\<close>

definition is_digit :: "char \<Rightarrow> bool" where
  "is_digit ch = (ch \<in> set ''0123456789'')"

definition fixed_2_decimals :: "string \<Rightarrow> bool" where
  "fixed_2_decimals s =
     (let t = (if take 1 s = ''-'' then drop 1 s else s); n = length t
      in 4 \<le> n \<and> list_all is_digit (take (n - 3) t) \<and> t ! (n - 3) = CHR ''.''
         \<and> list_all is_digit (drop (n - 2) t))"

text \<open>
  The number of hundredths such a string denotes, read off its digits.
\<close>

definition digit_value :: "char \<Rightarrow> nat" where
  "digit_value ch = of_char ch - 48"

definition hundredths_of :: "string \<Rightarrow> nat" where
  "hundredths_of s = foldl (\<lambda>a ch. 10 * a + digit_value ch) 0 (filter is_digit s)"

subsection \<open>Example payment data\<close>

definition cfg_ok :: config where
  "cfg_ok = \<lparr>YOOKASSA_SHOP_ID = Some ''100500'', YOOKASSA_SECRET_KEY = Some ''test_key'',
             YOOKASSA_RETURN_URL = Some ''http://localhost:8000/''\<rparr>"

definition cfg_no_shop :: config where
  "cfg_no_shop = \<lparr>YOOKASSA_SHOP_ID = None, YOOKASSA_SECRET_KEY = Some ''test_key'',
                  YOOKASSA_RETURN_URL = Some ''http://localhost:8000/''\<rparr>"

definition cfg_empty_key :: config where
  "cfg_empty_key = \<lparr>YOOKASSA_SHOP_ID = Some ''100500'', YOOKASSA_SECRET_KEY = Some '''',
                    YOOKASSA_RETURN_URL = Some ''http://localhost:8000/''\<rparr>"

definition gateway_pending :: "payload \<Rightarrow> string \<Rightarrow> string + payment" where
  "gateway_pending p k =
     Inr \<lparr>payment_id = ''pay-1'', payment_status = ''pending'',
          payment_confirmation = Some (Some ''https://pay.example/1'')\<rparr>"

definition world_0 :: world where
  "world_0 = \<lparr>account_id = None, secret_key = None, requests = []\<rparr>"

text \<open>\<open>Decimal("100.00")\<close>, the e-mail address \<open>a@b.com\<close> and a description.\<close>

definition amount_100 :: decimal where
  "amount_100 = Finite False 10000 (- 2)"

definition email_ab :: unicode where
  "email_ab = [97, 64, 98, 46, 99, 111, 109]"

definition short_description :: unicode where
  "short_description = [79, 114, 100, 101, 114, 32, 52, 50]"

definition long_description :: unicode where
  "long_description = replicate 200 120"

section \<open>Properties of the review handlers\<close>

lemmas example_defs = buyer_def other_buyer_def admin_def review_4_def review_2_def
  db_one_review_def db_two_reviews_def db_second_deleted_def db_all_deleted_def
  db_inactive_product_def review_a_def review_b_def review_c_def db_grades_1_2_def
  db_grades_1_2_2_def

lemmas handler_defs = Let_def create_review_def delete_review_def select_active_product_def
  db_get_product_def set_rating_def deactivate_review_def select_avg_grade_def
  get_all_reviews_def get_all_reviews_of_product_def int32_ok_def storable_def

subsection \<open>The quotient that \<open>AVG\<close> returns\<close>

text \<open>
  The equations of \<open>numeric_weight\<close> and \<open>first_digit\<close> are applied by hand, or to
  numerals only.
\<close>

declare numeric_weight.simps [simp del]

declare first_digit.simps [simp del]

lemma nearest_quotient:
  assumes "0 < b"
  shows "\<bar>2 * (int b * int ((2 * m + b) div (2 * b))) - 2 * int m\<bar> \<le> int b"
proof -
  define q where "q = (2 * m + b) div (2 * b)"
  define t where "t = (2 * m + b) mod (2 * b)"
  have "2 * b * q + t = 2 * m + b" by (simp add: q_def t_def)
  then have "int (2 * b * q + t) = int (2 * m + b)" by (rule arg_cong)
  then have e: "2 * (int b * int q) + int t = 2 * int m + int b" by simp
  from assms have "t < 2 * b" by (simp add: t_def)
  then have l: "int t < 2 * int b" by simp
  from e l show ?thesis unfolding q_def [symmetric] by linarith
qed

lemma nearest_quotient_rat:
  assumes "0 < b"
  shows "2 * \<bar>(of_nat ((2 * m + b) div (2 * b)) :: rat) - of_nat m / of_nat b\<bar> \<le> 1"
proof -
  define q where "q = (2 * m + b) div (2 * b)"
  have "\<bar>2 * (int b * int q) - 2 * int m\<bar> \<le> int b"
    unfolding q_def using assms by (rule nearest_quotient)
  then have "(of_int \<bar>2 * (int b * int q) - 2 * int m\<bar> :: rat) \<le> of_int (int b)"
    by (simp only: of_int_le_iff)
  then have i: "\<bar>2 * (of_nat b * of_nat q) - 2 * (of_nat m :: rat)\<bar> \<le> of_nat b"
    by simp
  from assms have b: "(0::rat) < of_nat b" by simp
  have "2 * \<bar>(of_nat q :: rat) - of_nat m / of_nat b\<bar>
          = \<bar>2 * (of_nat b * of_nat q) - 2 * of_nat m\<bar> / of_nat b"
  proof -
    have "(of_nat q :: rat) - of_nat m / of_nat b
            = (2 * (of_nat b * of_nat q) - 2 * of_nat m) / (2 * of_nat b)"
      using b by (simp add: field_simps)
    then show ?thesis using b by (simp add: abs_divide)
  qed
  also from i b have "\<dots> \<le> 1" by (simp add: divide_le_eq_1)
  finally show ?thesis unfolding q_def .
qed

lemma ints_close:
  assumes "x \<in> \<int>" and "y \<in> \<int>" and "2 * \<bar>x - y\<bar> \<le> (1::rat)"
  shows "x = y"
proof -
  from assms(1) obtain i where x: "x = of_int i" by (rule Ints_cases)
  from assms(2) obtain j where y: "y = of_int j" by (rule Ints_cases)
  from assms(3) have "(of_int (2 * \<bar>i - j\<bar>) :: rat) \<le> of_int 1"
    unfolding x y by simp
  then have "2 * \<bar>i - j\<bar> \<le> 1" by (simp only: of_int_le_iff)
  then have "i = j" by arith
  then show ?thesis by (simp add: x y)
qed

lemma numeric_div_scaled:
  "numeric_div a b * 10 ^ select_div_scale (nat \<bar>a\<bar>) b
     = of_int (sgn a * int ((2 * nat \<bar>a\<bar> * 10 ^ select_div_scale (nat \<bar>a\<bar>) b + b) div (2 * b)))"
  by (simp add: numeric_div_def Let_def)

lemma numeric_div_ints: "numeric_div a b * 10 ^ select_div_scale (nat \<bar>a\<bar>) b \<in> \<int>"
  unfolding numeric_div_scaled by (rule Ints_of_int)

lemma numeric_div_near:
  assumes "0 < b"
  shows "2 * 10 ^ select_div_scale (nat \<bar>a\<bar>) b * \<bar>numeric_div a b - of_int a / of_nat b\<bar> \<le> 1"
proof -
  define k where "k = select_div_scale (nat \<bar>a\<bar>) b"
  define m where "m = nat \<bar>a\<bar> * 10 ^ k"
  define q where "q = (2 * m + b) div (2 * b)"
  have p: "(0::rat) < 10 ^ k" by simp
  have nd: "numeric_div a b = of_int (sgn a) * (of_nat q / 10 ^ k)"
    by (simp add: numeric_div_def Let_def k_def q_def m_def mult.assoc)
  have "sgn a * int (nat \<bar>a\<bar>) = a" by (simp add: sgn_mult_abs)
  then have "(of_int (sgn a * int (nat \<bar>a\<bar>)) :: rat) = of_int a" by (rule arg_cong)
  then have "of_int a = (of_int (sgn a) :: rat) * of_nat (nat \<bar>a\<bar>)"
    by (simp only: of_int_mult of_int_of_nat_eq)
  then have mn: "(of_int a :: rat) / of_nat b = of_int (sgn a) * ((of_nat m / of_nat b) / 10 ^ k)"
    by (simp add: m_def)
  have "numeric_div a b - of_int a / of_nat b
          = of_int (sgn a) * ((of_nat q - of_nat m / of_nat b) / 10 ^ k)"
    unfolding nd mn by (simp add: algebra_simps diff_divide_distrib)
  then have "\<bar>numeric_div a b - of_int a / of_nat b\<bar>
          = \<bar>(of_int (sgn a) :: rat)\<bar> * (\<bar>of_nat q - of_nat m / of_nat b\<bar> / 10 ^ k)"
    by (simp add: abs_mult)
  also have "\<dots> \<le> 1 * (\<bar>of_nat q - of_nat m / of_nat b\<bar> / 10 ^ k)"
  proof (rule mult_right_mono)
    show "\<bar>(of_int (sgn a) :: rat)\<bar> \<le> 1" by (simp add: sgn_if)
    show "(0::rat) \<le> \<bar>of_nat q - of_nat m / of_nat b\<bar> / 10 ^ k" by simp
  qed
  finally have "10 ^ k * \<bar>numeric_div a b - of_int a / of_nat b\<bar>
                  \<le> \<bar>(of_nat q :: rat) - of_nat m / of_nat b\<bar>"
    using p by (simp add: field_simps)
  moreover have "2 * \<bar>(of_nat q :: rat) - of_nat m / of_nat b\<bar> \<le> 1"
    unfolding q_def using assms by (rule nearest_quotient_rat)
  ultimately show ?thesis unfolding k_def [symmetric] by simp
qed

lemma leading_digit_bounds:
  "first_digit n * 10000 ^ numeric_weight n \<le> n
   \<and> n < (first_digit n + 1) * 10000 ^ numeric_weight n
   \<and> first_digit n < 10000
   \<and> (0 < n \<longrightarrow> 0 < first_digit n)"
proof (induction n rule: numeric_weight.induct)
  case (1 n)
  show ?case
  proof (cases "n < 10000")
    case True
    from True have w: "numeric_weight n = 0"
      by (subst numeric_weight.simps) simp
    from True have f: "first_digit n = n"
      by (subst first_digit.simps) simp
    from True show ?thesis by (simp add: w f)
  next
    case False
    define m where "m = n div 10000"
    from False have w: "numeric_weight n = Suc (numeric_weight m)"
      by (subst numeric_weight.simps) (simp add: m_def)
    from False have f: "first_digit n = first_digit m"
      by (subst first_digit.simps) (simp add: m_def)
    from False have mpos: "0 < m" by (simp add: m_def div_greater_zero_iff)
    from False 1 have ih: "first_digit m * 10000 ^ numeric_weight m \<le> m"
      "m < (first_digit m + 1) * 10000 ^ numeric_weight m"
      "first_digit m < 10000" "0 < m \<longrightarrow> 0 < first_digit m"
      by (simp_all add: m_def)
    have lo: "10000 * m \<le> n" by (simp add: m_def)
    have hi: "n < 10000 * (m + 1)" by (simp add: m_def)
    from ih(1) have "10000 * (first_digit m * 10000 ^ numeric_weight m) \<le> 10000 * m" by simp
    with lo have a: "first_digit n * 10000 ^ numeric_weight n \<le> n"
      by (simp add: w f mult.assoc mult.left_commute)
    from ih(2) have "m + 1 \<le> (first_digit m + 1) * 10000 ^ numeric_weight m" by simp
    then have "10000 * (m + 1) \<le> 10000 * ((first_digit m + 1) * 10000 ^ numeric_weight m)"
      by simp
    with hi have b: "n < (first_digit n + 1) * 10000 ^ numeric_weight n"
      by (simp add: w f mult.assoc mult.left_commute)
    from ih(3) have c: "first_digit n < 10000" by (simp add: f)
    from ih(4) mpos have d: "0 < n \<longrightarrow> 0 < first_digit n" by (simp add: f)
    from a b c d show ?thesis by blast
  qed
qed

lemma quotient_weight_le_0:
  assumes "a < 10000 * b"
  shows "int (numeric_weight a) - int (numeric_weight b)
           - (if first_digit a \<le> first_digit b then 1 else 0) \<le> 0"
proof -
  define wa where "wa = numeric_weight a"
  define wb where "wb = numeric_weight b"
  define fa where "fa = first_digit a"
  define fb where "fb = first_digit b"
  note A = leading_digit_bounds [of a, folded wa_def fa_def]
  note B = leading_digit_bounds [of b, folded wb_def fb_def]
  from A have alo: "fa * 10000 ^ wa \<le> a" by blast
  from B have "b < (fb + 1) * 10000 ^ wb" by blast
  then have "b + 1 \<le> (fb + 1) * 10000 ^ wb" by simp
  then have bb: "10000 * (b + 1) \<le> 10000 * ((fb + 1) * 10000 ^ wb)"
    by (rule mult_le_mono2)
  show ?thesis
  proof (cases "fa \<le> fb")
    case True
    have "wa \<le> wb + 1"
    proof (rule ccontr)
      assume "\<not> wa \<le> wb + 1"
      then have w: "wb + 2 \<le> wa" by simp
      then have "0 < wa" by simp
      have "a \<noteq> 0"
      proof
        assume "a = 0"
        then have "numeric_weight a = 0" by (subst numeric_weight.simps) simp
        with \<open>0 < wa\<close> show False by (simp add: wa_def)
      qed
      with A have "1 \<le> fa" by simp
      then have "1 * 10000 ^ wa \<le> fa * (10000::nat) ^ wa" by (rule mult_le_mono1)
      then have "(10000::nat) ^ wa \<le> fa * 10000 ^ wa" by (simp only: mult_1)
      then have a1: "(10000::nat) ^ wa \<le> a" using alo by (rule le_trans)
      from w have "(10000::nat) ^ (wb + 2) \<le> 10000 ^ wa"
        by (rule power_increasing) simp
      then have a2: "(10000::nat) ^ (wb + 2) \<le> a" using a1 by (rule le_trans)
      from B have "fb + 1 \<le> 10000" by simp
      then have "(fb + 1) * 10000 ^ wb \<le> 10000 * (10000::nat) ^ wb" by (rule mult_le_mono1)
      then have "10000 * ((fb + 1) * 10000 ^ wb) \<le> 10000 * (10000 * (10000::nat) ^ wb)"
        by (rule mult_le_mono2)
      with bb have "10000 * (b + 1) \<le> 10000 * (10000 * (10000::nat) ^ wb)"
        by (rule le_trans)
      also have "\<dots> = 10000 ^ (wb + 2)" by (simp add: power_add power2_eq_square)
      finally have "10000 * (b + 1) \<le> a" using a2 by (rule le_trans)
      with assms show False by simp
    qed
    with True show ?thesis by (simp add: wa_def wb_def fa_def fb_def)
  next
    case False
    have "wa \<le> wb"
    proof (rule ccontr)
      assume "\<not> wa \<le> wb"
      then have w: "wb + 1 \<le> wa" by simp
      from False have "fb + 1 \<le> fa" by simp
      moreover from w have "(10000::nat) ^ (wb + 1) \<le> 10000 ^ wa"
        by (rule power_increasing) simp
      ultimately have "(fb + 1) * 10000 ^ (wb + 1) \<le> fa * (10000::nat) ^ wa"
        by (rule mult_le_mono)
      then have "(fb + 1) * 10000 ^ (wb + 1) \<le> a" using alo by (rule le_trans)
      moreover have "(fb + 1) * 10000 ^ (wb + 1) = 10000 * ((fb + 1) * 10000 ^ wb)"
        by simp
      ultimately have "10000 * ((fb + 1) * 10000 ^ wb) \<le> a" by simp
      with bb have "10000 * (b + 1) \<le> a" by (rule le_trans)
      with assms show False by simp
    qed
    with False show ?thesis by (simp add: wa_def wb_def fa_def fb_def)
  qed
qed

lemma select_div_scale_ge_16:
  assumes "a < 10000 * b"
  shows "16 \<le> select_div_scale a b"
  using quotient_weight_le_0 [OF assms]
  by (simp add: select_div_scale_def Let_def)

lemma or_zero_Some: "or_zero (Some a) = a"
  by simp

lemma avg_mean_at_scale: "mean_at_scale rs (or_zero (avg (map grade rs)))"
proof (cases rs)
  case Nil
  then show ?thesis by (simp add: mean_at_scale_def)
next
  case (Cons x xs)
  define S where "S = sum_list (map grade rs)"
  define n where "n = length rs"
  define k where "k = select_div_scale (nat \<bar>S\<bar>) n"
  define r where "r = numeric_div S n"
  from Cons have n: "0 < n" by (simp add: n_def)
  from Cons have ne: "rs \<noteq> []" by simp
  from Cons have "avg (map grade rs) = Some (numeric_div S n)"
    by (simp add: S_def n_def)
  then have r: "or_zero (avg (map grade rs)) = r"
    by (simp only: or_zero_Some r_def)
  have m: "mean_grade rs = of_int S / of_nat n"
    by (simp add: mean_grade_def S_def n_def)
  have p: "(0::rat) < 10 ^ k" by simp
  have i: "r * 10 ^ k \<in> \<int>"
    unfolding r_def k_def by (rule numeric_div_ints)
  have c: "2 * 10 ^ k * \<bar>r - mean_grade rs\<bar> \<le> 1"
    unfolding r_def k_def m using n by (rule numeric_div_near)
  have e: "mean_grade rs * 10 ^ k \<in> \<int> \<longrightarrow> r = mean_grade rs"
  proof
    assume j: "mean_grade rs * 10 ^ k \<in> \<int>"
    have "2 * \<bar>r * 10 ^ k - mean_grade rs * 10 ^ k\<bar> = 2 * 10 ^ k * \<bar>r - mean_grade rs\<bar>"
      by (simp add: abs_mult flip: left_diff_distrib)
    with c have "2 * \<bar>r * 10 ^ k - mean_grade rs * 10 ^ k\<bar> \<le> 1" by simp
    with i j have "r * 10 ^ k = mean_grade rs * 10 ^ k" by (rule ints_close)
    with p show "r = mean_grade rs" by simp
  qed
  have s: "\<bar>mean_grade rs\<bar> < 10000 \<longrightarrow> 16 \<le> k"
  proof
    assume "\<bar>mean_grade rs\<bar> < 10000"
    then have "\<bar>(of_int S :: rat)\<bar> / of_nat n < 10000"
      by (simp add: m abs_divide)
    with n have "\<bar>(of_int S :: rat)\<bar> < 10000 * of_nat n"
      by (simp add: divide_less_eq)
    then have "(of_int \<bar>S\<bar> :: rat) < of_int (10000 * int n)" by simp
    then have "\<bar>S\<bar> < 10000 * int n" by (simp only: of_int_less_iff)
    then have "nat \<bar>S\<bar> < 10000 * n" by simp
    then show "16 \<le> k" unfolding k_def by (rule select_div_scale_ge_16)
  qed
  from i c e s ne show ?thesis
    unfolding r mean_at_scale_def Let_def S_def [symmetric] n_def [symmetric] k_def [symmetric]
    by simp
qed

lemma or_zero_select_avg:
  "mean_at_scale (active_reviews_of st pid) (or_zero (select_avg_grade st pid))"
  unfolding select_avg_grade_def active_reviews_of_def [symmetric]
  by (rule avg_mean_at_scale)

lemma mean_at_scale_empty: "mean_at_scale [] r = (r = 0)"
  by (simp add: mean_at_scale_def)

subsection \<open>The writes of the handlers\<close>

lemma reviews_set_rating [simp]: "reviews (set_rating st pid r) = reviews st"
  by (simp add: set_rating_def)

lemma active_reviews_of_set_rating [simp]:
  "active_reviews_of (set_rating st pid r) q = active_reviews_of st q"
  by (simp add: active_reviews_of_def)

lemma products_set_rating:
  "products (set_rating st pid r) =
     map (\<lambda>p. if p_id p = pid then p\<lparr>rating := r\<rparr> else p) (products st)"
  by (simp add: set_rating_def)

lemma rating_updated_row:
  "p_id (if p_id q = pid then q\<lparr>rating := r\<rparr> else q) = pid \<Longrightarrow>
   rating (if p_id q = pid then q\<lparr>rating := r\<rparr> else q) = r"
  by (cases "p_id q = pid") simp_all

lemma rating_set_rating:
  "\<forall>p\<in>set (products (set_rating st pid r)). p_id p = pid \<longrightarrow> rating p = r"
proof (intro ballI impI)
  fix p
  assume "p \<in> set (products (set_rating st pid r))" and k: "p_id p = pid"
  then have "p \<in> (\<lambda>p. if p_id p = pid then p\<lparr>rating := r\<rparr> else p) ` set (products st)"
    by (simp only: products_set_rating set_map)
  then obtain q where p: "p = (if p_id q = pid then q\<lparr>rating := r\<rparr> else q)"
    by (rule imageE)
  from k show "rating p = r"
    unfolding p by (rule rating_updated_row)
qed

lemma db_get_product_Some:
  "db_get_product st pid = Some q \<Longrightarrow> \<exists>p\<in>set (products st). p_id p = pid"
  by (auto simp: db_get_product_def find_Some_iff)

lemma products_ids_set_rating [simp]:
  "map p_id (products (set_rating st pid r)) = map p_id (products st)"
  by (simp add: set_rating_def comp_def)

lemma product_kept_set_rating:
  assumes "\<exists>p\<in>set (products st). p_id p = pid"
  shows "\<exists>p\<in>set (products (set_rating st pid r)). p_id p = pid"
proof -
  from assms have "pid \<in> set (map p_id (products st))" by force
  then have "pid \<in> set (map p_id (products (set_rating st pid r)))"
    by (simp only: products_ids_set_rating)
  then obtain p where "p \<in> set (products (set_rating st pid r))" and "p_id p = pid"
    by (auto simp only: set_map image_iff)
  then show ?thesis by blast
qed

lemma create_review_ok:
  assumes "create_review now st c u = (Inr rv, st')"
  shows "rv \<in> set (active_reviews_of st' (rc_product_id c))"
    and "\<exists>p\<in>set (products st'). p_id p = rc_product_id c"
    and "\<forall>p\<in>set (products st'). p_id p = rc_product_id c \<longrightarrow>
           mean_at_scale (active_reviews_of st' (rc_product_id c)) (rating p)"
    and "int32_ok (rc_product_id c)"
    and "storable rv"
proof -
  define rv0 where "rv0 = \<lparr>review_id = reviews_id_seq st, user_id = u_id u,
                           product_id = rc_product_id c, comment = rc_comment c,
                           comment_date = now, grade = rc_grade c, is_active = True\<rparr>"
  define st1 where "st1 = st\<lparr>reviews := reviews st @ [rv0],
                       reviews_id_seq := reviews_id_seq st + 1\<rparr>"
  from assms show ok: "int32_ok (rc_product_id c)"
    by (cases "int32_ok (rc_product_id c)") (simp_all add: create_review_def)
  with assms obtain q where q: "select_active_product st (rc_product_id c) = Some q"
    by (cases "select_active_product st (rc_product_id c)") (simp_all add: create_review_def)
  from assms ok q have s: "storable rv0"
    by (cases "storable rv0") (simp_all add: create_review_def Let_def rv0_def)
  from assms ok q s have ex: "db_get_product st1 (rc_product_id c) \<noteq> None"
    by (cases "db_get_product st1 (rc_product_id c)")
       (simp_all add: create_review_def Let_def rv0_def st1_def)
  then obtain q' where q': "db_get_product st1 (rc_product_id c) = Some q'" by blast
  from assms ok q s q' have rv: "rv = rv0"
    and st': "st' = set_rating st1 (rc_product_id c)
                      (or_zero (select_avg_grade st1 (rc_product_id c)))"
    by (auto simp: create_review_def Let_def rv0_def st1_def)
  from s show "storable rv" by (simp only: rv)
  have mem: "rv0 \<in> set (active_reviews_of st1 (rc_product_id c))"
    by (simp add: active_reviews_of_def st1_def rv0_def)
  show "rv \<in> set (active_reviews_of st' (rc_product_id c))"
    using mem by (simp add: rv st')
  from q' have "\<exists>p\<in>set (products st1). p_id p = rc_product_id c"
    by (rule db_get_product_Some)
  then show "\<exists>p\<in>set (products st'). p_id p = rc_product_id c"
    unfolding st' by (rule product_kept_set_rating)
  show "\<forall>p\<in>set (products st'). p_id p = rc_product_id c \<longrightarrow>
           mean_at_scale (active_reviews_of st' (rc_product_id c)) (rating p)"
    using rating_set_rating [of st1 "rc_product_id c"
            "or_zero (select_avg_grade st1 (rc_product_id c))"]
          or_zero_select_avg [of st1 "rc_product_id c"]
    by (simp add: st')
qed

lemma reviews_deactivate_review:
  "reviews (deactivate_review st k) =
     map (\<lambda>r. if review_id r = k then r\<lparr>is_active := False\<rparr> else r) (reviews st)"
  by (simp add: deactivate_review_def)

lemma products_deactivate_review: "products (deactivate_review st k) = products st"
  by (simp add: deactivate_review_def)

lemma deactivated_row:
  "review_id (if review_id r = k then r\<lparr>is_active := False\<rparr> else r) = k \<Longrightarrow>
   \<not> is_active (if review_id r = k then r\<lparr>is_active := False\<rparr> else r)"
  by (cases "review_id r = k") simp_all

lemma deactivate_review_inactive:
  "\<forall>r\<in>set (reviews (deactivate_review st k)). review_id r = k \<longrightarrow> \<not> is_active r"
proof (intro ballI impI)
  fix r
  assume "r \<in> set (reviews (deactivate_review st k))" and k: "review_id r = k"
  then have "r \<in> (\<lambda>r. if review_id r = k then r\<lparr>is_active := False\<rparr> else r) ` set (reviews st)"
    by (simp only: reviews_deactivate_review set_map)
  then obtain q where r: "r = (if review_id q = k then q\<lparr>is_active := False\<rparr> else q)"
    by (rule imageE)
  from k show "\<not> is_active r"
    unfolding r by (rule deactivated_row)
qed

lemma active_reviews_of_subset: "set (active_reviews_of st pid) \<subseteq> set (reviews st)"
  by (simp add: active_reviews_of_def)

lemma active_reviews_of_active: "r \<in> set (active_reviews_of st pid) \<Longrightarrow> is_active r"
  by (simp add: active_reviews_of_def)

lemma find_active_review:
  assumes "find (\<lambda>r. review_id r = rid \<and> is_active r) (reviews st) = Some rv"
  shows "rv \<in> set (reviews st)" and "review_id rv = rid" and "is_active rv"
  using assms by (auto simp: find_Some_iff)

lemma delete_review_ok:
  assumes "delete_review st rid u = (Inr msg, st')"
  obtains rv where "find (\<lambda>r. review_id r = rid \<and> is_active r) (reviews st) = Some rv"
    and "user_id rv = u_id u \<or> role u = ''admin''"
    and "db_get_product (deactivate_review st rid) (product_id rv) \<noteq> None"
    and "st' = set_rating (deactivate_review st rid) (product_id rv)
                 (or_zero (select_avg_grade (deactivate_review st rid) (product_id rv)))"
    and "int32_ok rid"
proof -
  from assms have ok: "int32_ok rid"
    by (cases "int32_ok rid") (simp_all add: delete_review_def)
  with assms obtain rv where f: "find (\<lambda>r. review_id r = rid \<and> is_active r) (reviews st) = Some rv"
    by (cases "find (\<lambda>r. review_id r = rid \<and> is_active r) (reviews st)")
       (simp_all add: delete_review_def)
  then have k: "review_id rv = rid" by (rule find_active_review)
  from assms ok f have a: "user_id rv = u_id u \<or> role u = ''admin''"
    by (auto simp: delete_review_def split: if_splits)
  with assms ok f k have g: "db_get_product (deactivate_review st rid) (product_id rv) \<noteq> None"
    by (cases "db_get_product (deactivate_review st rid) (product_id rv)")
       (auto simp: delete_review_def Let_def)
  with assms ok f k a have "st' = set_rating (deactivate_review st rid) (product_id rv)
                 (or_zero (select_avg_grade (deactivate_review st rid) (product_id rv)))"
    by (cases "db_get_product (deactivate_review st rid) (product_id rv)")
       (auto simp: delete_review_def Let_def)
  with f a g show ?thesis using ok by (rule that)
qed

lemma delete_review_rating:
  assumes "delete_review st rid u = (Inr msg, st')"
  shows "\<exists>rv. find (\<lambda>r. review_id r = rid \<and> is_active r) (reviews st) = Some rv \<and>
           (\<forall>r\<in>set (active_reviews_of st' (product_id rv)). review_id r \<noteq> rid) \<and>
           (\<exists>p\<in>set (products st'). p_id p = product_id rv) \<and>
           (\<forall>p\<in>set (products st'). p_id p = product_id rv \<longrightarrow>
              mean_at_scale (active_reviews_of st' (product_id rv)) (rating p))"
proof -
  from assms obtain rv where f: "find (\<lambda>r. review_id r = rid \<and> is_active r) (reviews st) = Some rv"
    and g: "db_get_product (deactivate_review st rid) (product_id rv) \<noteq> None"
    and st': "st' = set_rating (deactivate_review st rid) (product_id rv)
                 (or_zero (select_avg_grade (deactivate_review st rid) (product_id rv)))"
    by (rule delete_review_ok)
  have a: "\<forall>r\<in>set (active_reviews_of st' (product_id rv)). review_id r \<noteq> rid"
  proof
    fix r
    assume r: "r \<in> set (active_reviews_of st' (product_id rv))"
    then have "r \<in> set (reviews (deactivate_review st rid))"
      using active_reviews_of_subset [of st' "product_id rv"] by (auto simp: st')
    moreover from r have "is_active r" by (rule active_reviews_of_active)
    ultimately show "review_id r \<noteq> rid"
      using deactivate_review_inactive [of st rid] by blast
  qed
  from g have "\<exists>p\<in>set (products (deactivate_review st rid)). p_id p = product_id rv"
    by (auto dest: db_get_product_Some)
  then have b: "\<exists>p\<in>set (products st'). p_id p = product_id rv"
    unfolding st' by (rule product_kept_set_rating)
  have c: "\<forall>p\<in>set (products st'). p_id p = product_id rv \<longrightarrow>
              mean_at_scale (active_reviews_of st' (product_id rv)) (rating p)"
    using rating_set_rating [of "deactivate_review st rid" "product_id rv"
            "or_zero (select_avg_grade (deactivate_review st rid) (product_id rv))"]
          or_zero_select_avg [of "deactivate_review st rid" "product_id rv"]
    by (simp add: st')
  from f a b c show ?thesis by blast
qed

subsection \<open>The handlers on the example data\<close>

lemmas numeric_eval = numeric_div_def select_div_scale_def numeric_weight.simps
  first_digit.simps

lemma create_second_review:
  "create_review 200 db_one_review \<lparr>rc_product_id = 1, rc_comment = None, rc_grade = 2\<rparr> buyer
     = (Inr review_2, db_two_reviews)"
  by (simp add: handler_defs example_defs numeric_eval)

lemma delete_second_review:
  "delete_review db_two_reviews 2 buyer = (Inr [(''Message'', ''Review deleted'')], db_second_deleted)"
  by (simp add: handler_defs example_defs numeric_eval)

lemma delete_last_review:
  "delete_review db_one_review 1 buyer = (Inr [(''Message'', ''Review deleted'')], db_all_deleted)"
  by (simp add: handler_defs example_defs numeric_eval)

lemma create_third_review:
  "create_review 300 db_grades_1_2 \<lparr>rc_product_id = 1, rc_comment = None, rc_grade = 2\<rparr> buyer
     = (Inr review_c, db_grades_1_2_2)"
  by (simp add: handler_defs example_defs numeric_eval)

text \<open>An administrator may soft-delete a review written by someone else.\<close>

lemma admin_deletes_foreign_review:
  "delete_review db_two_reviews 2 admin
     = (Inr [(''Message'', ''Review deleted'')], db_second_deleted)"
  by (simp add: handler_defs example_defs numeric_eval)

subsection \<open>The rating after a mutation\<close>

text \<open>
  Claim C1, as amended. After a successful \<open>create_review\<close> or \<open>delete_review\<close>, the
  product the review belongs to exists and its stored rating is the arithmetic mean of
  the grades of exactly its active reviews (the review just created is among them, the
  review just soft-deleted is not) as SQL \<open>AVG\<close> returns it: a number with as many decimal
  places as the scale of the quotient, at least 16 for a mean below 10000, within half a
  unit of the last place of the mean, equal to the mean when that has no more decimal
  places than the scale, and 0 when no active review is left.
\<close>

theorem rating_is_mean_at_scale:
  "(create_review now st c u = (Inr rv, st') \<longrightarrow>
       rv \<in> set (active_reviews_of st' (rc_product_id c)) \<and>
       (\<exists>p\<in>set (products st'). p_id p = rc_product_id c) \<and>
       (\<forall>p\<in>set (products st'). p_id p = rc_product_id c \<longrightarrow>
           mean_at_scale (active_reviews_of st' (rc_product_id c)) (rating p)))
   \<and> (delete_review dst rid du = (Inr msg, dst') \<longrightarrow>
       (\<exists>dv. find (\<lambda>r. review_id r = rid \<and> is_active r) (reviews dst) = Some dv \<and>
         (\<forall>r\<in>set (active_reviews_of dst' (product_id dv)). review_id r \<noteq> rid) \<and>
         (\<exists>p\<in>set (products dst'). p_id p = product_id dv) \<and>
         (\<forall>p\<in>set (products dst'). p_id p = product_id dv \<longrightarrow>
            mean_at_scale (active_reviews_of dst' (product_id dv)) (rating p))))"
proof (intro conjI impI)
  assume h: "create_review now st c u = (Inr rv, st')"
  from h show "rv \<in> set (active_reviews_of st' (rc_product_id c))"
    by (rule create_review_ok(1))
  from h show "\<exists>p\<in>set (products st'). p_id p = rc_product_id c"
    by (rule create_review_ok(2))
  from h show "\<forall>p\<in>set (products st'). p_id p = rc_product_id c \<longrightarrow>
           mean_at_scale (active_reviews_of st' (rc_product_id c)) (rating p)"
    by (rule create_review_ok(3))
next
  assume "delete_review dst rid du = (Inr msg, dst')"
  then show "\<exists>dv. find (\<lambda>r. review_id r = rid \<and> is_active r) (reviews dst) = Some dv \<and>
         (\<forall>r\<in>set (active_reviews_of dst' (product_id dv)). review_id r \<noteq> rid) \<and>
         (\<exists>p\<in>set (products dst'). p_id p = product_id dv) \<and>
         (\<forall>p\<in>set (products dst'). p_id p = product_id dv \<longrightarrow>
            mean_at_scale (active_reviews_of dst' (product_id dv)) (rating p))"
    by (rule delete_review_rating)
qed

text \<open>
  The scenario of the specification: product 1 has one active review of grade 4; a second
  review of grade 2 makes the rating 3, and soft-deleting that review makes it 4 again.
  Both means are whole numbers, so the ratings are the means themselves.
\<close>

lemma whole_mean_at_scale:
  assumes "mean_at_scale rs r" and "rs \<noteq> []" and "mean_grade rs = of_int n"
  shows "r = of_int n"
proof -
  have "(of_int n :: rat) * 10 ^ k \<in> \<int>" for k
    by (intro Ints_mult Ints_of_int Ints_power Ints_numeral)
  with assms show ?thesis
    by (simp add: mean_at_scale_def Let_def)
qed

theorem rating_is_mean_at_scale_witness:
  "create_review 200 db_one_review \<lparr>rc_product_id = 1, rc_comment = None, rc_grade = 2\<rparr> buyer
     = (Inr review_2, db_two_reviews)
   \<and> map grade (active_reviews_of db_two_reviews 1) = [4, 2]
   \<and> (\<exists>p\<in>set (products db_two_reviews). p_id p = 1 \<and> rating p = 3)
   \<and> delete_review db_two_reviews 2 buyer
     = (Inr [(''Message'', ''Review deleted'')], db_second_deleted)
   \<and> map grade (active_reviews_of db_second_deleted 1) = [4]
   \<and> (\<exists>p\<in>set (products db_second_deleted). p_id p = 1 \<and> rating p = 4)"
proof -
  have g2: "active_reviews_of db_two_reviews 1 = [review_4, review_2]"
    by (simp add: active_reviews_of_def example_defs)
  have g1: "active_reviews_of db_second_deleted 1 = [review_4]"
    by (simp add: active_reviews_of_def example_defs)
  have m2: "mean_grade [review_4, review_2] = of_int 3"
    by (simp add: mean_grade_def review_4_def review_2_def)
  have m1: "mean_grade [review_4] = of_int 4"
    by (simp add: mean_grade_def review_4_def)
  have f: "find (\<lambda>r. review_id r = 2 \<and> is_active r) (reviews db_two_reviews) = Some review_2"
    by (simp add: example_defs)
  have p2: "product_id review_2 = 1" by (simp add: review_2_def)
  have k: "rc_product_id \<lparr>rc_product_id = 1, rc_comment = None, rc_grade = 2\<rparr> = 1" by simp
  note t = rating_is_mean_at_scale
    [of 200 db_one_review "\<lparr>rc_product_id = 1, rc_comment = None, rc_grade = 2\<rparr>" buyer
        review_2 db_two_reviews db_two_reviews 2 buyer "[(''Message'', ''Review deleted'')]"
        db_second_deleted]
  from t create_second_review
  obtain p where p: "p \<in> set (products db_two_reviews)" "p_id p = 1"
    and ms2: "mean_at_scale [review_4, review_2] (rating p)"
    unfolding k g2 by blast
  have "rating p = of_int 3" by (rule whole_mean_at_scale [OF ms2 _ m2]) simp
  with p have a: "\<exists>p\<in>set (products db_two_reviews). p_id p = 1 \<and> rating p = 3"
    by auto
  from t delete_second_review
  obtain q where q: "q \<in> set (products db_second_deleted)" "p_id q = 1"
    and ms1: "mean_at_scale [review_4] (rating q)"
    unfolding f by (auto simp: p2 g1)
  have "rating q = of_int 4" by (rule whole_mean_at_scale [OF ms1 _ m1]) simp
  with q have b: "\<exists>p\<in>set (products db_second_deleted). p_id p = 1 \<and> rating p = 4"
    by auto
  from a b create_second_review delete_second_review show ?thesis
    by (simp add: g1 g2 review_4_def review_2_def)
qed

text \<open>
  The claim as it stands, with the rating equal to the mean, fails when the mean has no
  finite decimal expansion: with the active grades 1, 2 and 2 the mean is 5/3 and the
  stored rating is 1.6666666666666667.
\<close>

theorem rating_is_exact_mean_counterexample:
  "create_review 300 db_grades_1_2 \<lparr>rc_product_id = 1, rc_comment = None, rc_grade = 2\<rparr> buyer
     = (Inr review_c, db_grades_1_2_2)
   \<and> map grade (active_reviews_of db_grades_1_2_2 1) = [1, 2, 2]
   \<and> mean_grade (active_reviews_of db_grades_1_2_2 1) = 5 / 3
   \<and> map p_id (products db_grades_1_2_2) = [1]
   \<and> map rating (products db_grades_1_2_2) = [16666666666666667 / 10000000000000000]
   \<and> (16666666666666667 / 10000000000000000 :: rat) \<noteq> 5 / 3"
proof -
  have g: "active_reviews_of db_grades_1_2_2 1 = [review_a, review_b, review_c]"
    by (simp add: active_reviews_of_def example_defs)
  have m: "mean_grade [review_a, review_b, review_c] = 5 / 3"
    by (simp add: mean_grade_def review_a_def review_b_def review_c_def)
  have p: "map p_id (products db_grades_1_2_2) = [1]"
    "map rating (products db_grades_1_2_2) = [16666666666666667 / 10000000000000000]"
    by (simp_all add: db_grades_1_2_2_def)
  have n: "(16666666666666667 / 10000000000000000 :: rat) \<noteq> 5 / 3"
    by (simp add: divide_eq_eq eq_divide_eq)
  from create_third_review g m p n show ?thesis
    by (simp add: review_a_def review_b_def review_c_def)
qed

subsection \<open>A product without active reviews\<close>

lemma select_active_product_None:
  "(select_active_product st pid = None) =
     (\<forall>p\<in>set (products st). p_id p = pid \<longrightarrow> \<not> p_is_active p)"
  by (auto simp: select_active_product_def find_None_iff)

text \<open>
  Claim C2. For a product without active reviews the aggregation step computes the number
  0 (a rating, not \<open>None\<close>), and a successful \<open>delete_review\<close> that leaves the product
  of the deleted review without active reviews stores 0 as that product's rating.
\<close>

theorem zero_rating_without_active_reviews:
  "(active_reviews_of st pid = [] \<longrightarrow> or_zero (select_avg_grade st pid) = 0)
   \<and> (delete_review dst rid du = (Inr msg, dst') \<longrightarrow>
        (\<exists>dv. find (\<lambda>r. review_id r = rid \<and> is_active r) (reviews dst) = Some dv \<and>
           (active_reviews_of dst' (product_id dv) = [] \<longrightarrow>
              (\<exists>p\<in>set (products dst'). p_id p = product_id dv) \<and>
              (\<forall>p\<in>set (products dst'). p_id p = product_id dv \<longrightarrow> rating p = 0))))"
proof (intro conjI impI)
  assume "active_reviews_of st pid = []"
  with or_zero_select_avg [of st pid] show "or_zero (select_avg_grade st pid) = 0"
    by (simp add: mean_at_scale_empty)
next
  assume "delete_review dst rid du = (Inr msg, dst')"
  then obtain dv where f: "find (\<lambda>r. review_id r = rid \<and> is_active r) (reviews dst) = Some dv"
    and e: "\<exists>p\<in>set (products dst'). p_id p = product_id dv"
    and r: "\<forall>p\<in>set (products dst'). p_id p = product_id dv \<longrightarrow>
              mean_at_scale (active_reviews_of dst' (product_id dv)) (rating p)"
    using delete_review_rating [of dst rid du msg dst'] by blast
  have "active_reviews_of dst' (product_id dv) = [] \<longrightarrow>
      (\<forall>p\<in>set (products dst'). p_id p = product_id dv \<longrightarrow> rating p = 0)"
  proof (intro impI ballI)
    fix p
    assume n: "active_reviews_of dst' (product_id dv) = []"
      and "p \<in> set (products dst')" and "p_id p = product_id dv"
    with r have "mean_at_scale (active_reviews_of dst' (product_id dv)) (rating p)"
      by blast
    then show "rating p = 0"
      unfolding n by (simp only: mean_at_scale_empty)
  qed
  with f e show "\<exists>dv. find (\<lambda>r. review_id r = rid \<and> is_active r) (reviews dst) = Some dv \<and>
           (active_reviews_of dst' (product_id dv) = [] \<longrightarrow>
              (\<exists>p\<in>set (products dst'). p_id p = product_id dv) \<and>
              (\<forall>p\<in>set (products dst'). p_id p = product_id dv \<longrightarrow> rating p = 0))"
    by blast
qed

text \<open>Soft-deleting the only review of product 1 leaves it rated 0.\<close>

theorem zero_rating_without_active_reviews_witness:
  "active_reviews_of db_all_deleted 1 = []
   \<and> or_zero (select_avg_grade db_all_deleted 1) = 0
   \<and> delete_review db_one_review 1 buyer = (Inr [(''Message'', ''Review deleted'')], db_all_deleted)
   \<and> (\<exists>p\<in>set (products db_all_deleted). p_id p = 1 \<and> rating p = 0)"
proof -
  have n: "active_reviews_of db_all_deleted 1 = []"
    by (simp add: active_reviews_of_def example_defs)
  have f: "find (\<lambda>r. review_id r = 1 \<and> is_active r) (reviews db_one_review) = Some review_4"
    by (simp add: example_defs)
  have p: "product_id review_4 = 1" by (simp add: review_4_def)
  note t = zero_rating_without_active_reviews
    [of db_all_deleted 1 db_one_review 1 buyer "[(''Message'', ''Review deleted'')]" db_all_deleted]
  from t n have a: "or_zero (select_avg_grade db_all_deleted 1) = 0" by blast
  from t delete_last_review
  have b: "\<exists>p\<in>set (products db_all_deleted). p_id p = 1 \<and> rating p = 0"
    unfolding f by (simp add: p n) blast
  from n a b delete_last_review show ?thesis by blast
qed

subsection \<open>Requests that are refused\<close>








subsection \<open>Soft deletion and the listings\<close>

lemma soft_deleted_row:
  "review_id (if review_id r = k then r\<lparr>is_active := False\<rparr> else r) = review_id r
   \<and> user_id (if review_id r = k then r\<lparr>is_active := False\<rparr> else r) = user_id r
   \<and> product_id (if review_id r = k then r\<lparr>is_active := False\<rparr> else r) = product_id r
   \<and> comment (if review_id r = k then r\<lparr>is_active := False\<rparr> else r) = comment r
   \<and> comment_date (if review_id r = k then r\<lparr>is_active := False\<rparr> else r) = comment_date r
   \<and> grade (if review_id r = k then r\<lparr>is_active := False\<rparr> else r) = grade r
   \<and> (is_active (if review_id r = k then r\<lparr>is_active := False\<rparr> else r) \<noteq> is_active r
        \<longrightarrow> review_id r = k \<and> is_active r)"
  by (cases "review_id r = k") simp_all

lemma get_all_reviews_set_rating: "get_all_reviews (set_rating st pid r) = get_all_reviews st"
  by (simp add: get_all_reviews_def)

lemma get_all_reviews_subset: "set (get_all_reviews st) \<subseteq> set (reviews st)"
  by (simp add: get_all_reviews_def)

lemma get_all_reviews_active: "r \<in> set (get_all_reviews st) \<Longrightarrow> is_active r"
  by (simp add: get_all_reviews_def)

lemma get_all_reviews_of_product_Inr:
  "get_all_reviews_of_product st pid = Inr rs \<Longrightarrow> rs = active_reviews_of st pid"
  by (cases "int32_ok pid"; cases "select_active_product st pid")
     (simp_all add: get_all_reviews_of_product_def active_reviews_of_def)

text \<open>
  Claim C5. A successful \<open>delete_review\<close> removes no row: the table keeps its length and
  every row keeps its id, author, product, comment, date and grade; only an active row with
  the deleted id changes its active flag. The row with that id is still stored, inactive,
  and it appears neither in the listing of all active reviews nor in any per-product
  listing.
\<close>

theorem soft_delete_keeps_row:
  assumes "delete_review st rid u = (Inr msg, st')"
  shows "length (reviews st') = length (reviews st)
    \<and> (\<forall>i<length (reviews st).
          review_id (reviews st' ! i) = review_id (reviews st ! i)
        \<and> user_id (reviews st' ! i) = user_id (reviews st ! i)
        \<and> product_id (reviews st' ! i) = product_id (reviews st ! i)
        \<and> comment (reviews st' ! i) = comment (reviews st ! i)
        \<and> comment_date (reviews st' ! i) = comment_date (reviews st ! i)
        \<and> grade (reviews st' ! i) = grade (reviews st ! i)
        \<and> (is_active (reviews st' ! i) \<noteq> is_active (reviews st ! i)
             \<longrightarrow> review_id (reviews st ! i) = rid \<and> is_active (reviews st ! i)))
    \<and> (\<exists>r\<in>set (reviews st'). review_id r = rid)
    \<and> (\<forall>r\<in>set (reviews st'). review_id r = rid \<longrightarrow> \<not> is_active r)
    \<and> (\<forall>r\<in>set (get_all_reviews st'). review_id r \<noteq> rid)
    \<and> (\<forall>pid rs. get_all_reviews_of_product st' pid = Inr rs
          \<longrightarrow> (\<forall>r\<in>set rs. review_id r \<noteq> rid))"
proof -
  from assms obtain rv where f: "find (\<lambda>r. review_id r = rid \<and> is_active r) (reviews st) = Some rv"
    and st': "st' = set_rating (deactivate_review st rid) (product_id rv)
                 (or_zero (select_avg_grade (deactivate_review st rid) (product_id rv)))"
    by (rule delete_review_ok)
  have rs: "reviews st' =
      map (\<lambda>r. if review_id r = rid then r\<lparr>is_active := False\<rparr> else r) (reviews st)"
    by (simp add: st' reviews_deactivate_review)
  have len: "length (reviews st') = length (reviews st)"
    by (simp add: rs)
  have rows: "\<forall>i<length (reviews st).
          review_id (reviews st' ! i) = review_id (reviews st ! i)
        \<and> user_id (reviews st' ! i) = user_id (reviews st ! i)
        \<and> product_id (reviews st' ! i) = product_id (reviews st ! i)
        \<and> comment (reviews st' ! i) = comment (reviews st ! i)
        \<and> comment_date (reviews st' ! i) = comment_date (reviews st ! i)
        \<and> grade (reviews st' ! i) = grade (reviews st ! i)
        \<and> (is_active (reviews st' ! i) \<noteq> is_active (reviews st ! i)
             \<longrightarrow> review_id (reviews st ! i) = rid \<and> is_active (reviews st ! i))"
  proof (intro allI impI)
    fix i
    assume "i < length (reviews st)"
    then have e: "reviews st' ! i =
        (if review_id (reviews st ! i) = rid then (reviews st ! i)\<lparr>is_active := False\<rparr>
         else reviews st ! i)"
      by (simp only: rs nth_map)
    show "review_id (reviews st' ! i) = review_id (reviews st ! i)
        \<and> user_id (reviews st' ! i) = user_id (reviews st ! i)
        \<and> product_id (reviews st' ! i) = product_id (reviews st ! i)
        \<and> comment (reviews st' ! i) = comment (reviews st ! i)
        \<and> comment_date (reviews st' ! i) = comment_date (reviews st ! i)
        \<and> grade (reviews st' ! i) = grade (reviews st ! i)
        \<and> (is_active (reviews st' ! i) \<noteq> is_active (reviews st ! i)
             \<longrightarrow> review_id (reviews st ! i) = rid \<and> is_active (reviews st ! i))"
      unfolding e by (rule soft_deleted_row)
  qed
  have off: "\<forall>r\<in>set (reviews st'). review_id r = rid \<longrightarrow> \<not> is_active r"
    using deactivate_review_inactive [of st rid] by (simp add: st')
  from f have "rv \<in> set (reviews st)" and k: "review_id rv = rid"
    by (rule find_active_review)+
  then have "(if review_id rv = rid then rv\<lparr>is_active := False\<rparr> else rv) \<in> set (reviews st')"
    unfolding rs set_map by (intro imageI)
  with k have kept: "\<exists>r\<in>set (reviews st'). review_id r = rid"
    using soft_deleted_row [of rv rid] by blast
  have glob: "\<forall>r\<in>set (get_all_reviews st'). review_id r \<noteq> rid"
    using off get_all_reviews_subset [of st'] get_all_reviews_active by blast
  have per: "\<forall>pid rs. get_all_reviews_of_product st' pid = Inr rs
          \<longrightarrow> (\<forall>r\<in>set rs. review_id r \<noteq> rid)"
    using off active_reviews_of_subset active_reviews_of_active
    by (blast dest!: get_all_reviews_of_product_Inr)
  from len rows kept off glob per show ?thesis by blast
qed

text \<open>
  Soft-deleting review 2: both rows stay, both listings show review 1 only.
\<close>

theorem soft_delete_keeps_row_witness:
  "delete_review db_two_reviews 2 buyer
     = (Inr [(''Message'', ''Review deleted'')], db_second_deleted)
   \<and> length (reviews db_second_deleted) = length (reviews db_two_reviews)
   \<and> (\<exists>r\<in>set (reviews db_second_deleted). review_id r = 2)
   \<and> \<not> (\<exists>r\<in>set (reviews db_second_deleted). review_id r = 2 \<and> is_active r)
   \<and> \<not> (\<exists>r\<in>set (get_all_reviews db_second_deleted). review_id r = 2)
   \<and> get_all_reviews db_second_deleted = [review_4]
   \<and> get_all_reviews_of_product db_second_deleted 1 = Inr [review_4]"
proof -
  have a: "get_all_reviews db_second_deleted = [review_4]"
    by (simp add: get_all_reviews_def example_defs)
  have b: "get_all_reviews_of_product db_second_deleted 1 = Inr [review_4]"
    by (simp add: get_all_reviews_of_product_def select_active_product_def int32_ok_def
          example_defs)
  from soft_delete_keeps_row [OF delete_second_review] a b delete_second_review
  show ?thesis by blast
qed

text \<open>
  Claim C10. The listing of all active reviews contains every stored active review and
  does not depend on the \<open>products\<close> table at all, while the per-product listing answers
  404 for a product that is missing or inactive, its id being within the range of the
  \<open>INTEGER\<close> id column (as the id of every stored product is).
\<close>

theorem global_listing_ignores_product:
  "(r \<in> set (reviews st) \<and> is_active r \<longrightarrow> r \<in> set (get_all_reviews st))
   \<and> get_all_reviews (st\<lparr>products := ps\<rparr>) = get_all_reviews st
   \<and> (int32_ok pid \<and> (\<forall>p\<in>set (products st). p_id p = pid \<longrightarrow> \<not> p_is_active p) \<longrightarrow>
        get_all_reviews_of_product st pid
          = Inl (HTTPException 404 ''Product not found or inactive''))"
proof (intro conjI impI)
  assume "r \<in> set (reviews st) \<and> is_active r"
  then show "r \<in> set (get_all_reviews st)"
    by (simp add: get_all_reviews_def)
next
  show "get_all_reviews (st\<lparr>products := ps\<rparr>) = get_all_reviews st"
    by (simp add: get_all_reviews_def)
next
  assume h: "int32_ok pid \<and> (\<forall>p\<in>set (products st). p_id p = pid \<longrightarrow> \<not> p_is_active p)"
  then have "select_active_product st pid = None"
    unfolding select_active_product_None by blast
  with h show "get_all_reviews_of_product st pid
          = Inl (HTTPException 404 ''Product not found or inactive'')"
    by (simp add: get_all_reviews_of_product_def)
qed

text \<open>
  An active review of the inactive product 1 is listed globally; the listing of product 1
  is refused.
\<close>

theorem global_listing_ignores_product_witness:
  "review_4 \<in> set (reviews db_inactive_product) \<and> is_active review_4
   \<and> product_id review_4 = 1
   \<and> int32_ok 1
   \<and> \<not> (\<exists>p\<in>set (products db_inactive_product). p_id p = 1 \<and> p_is_active p)
   \<and> review_4 \<in> set (get_all_reviews db_inactive_product)
   \<and> get_all_reviews_of_product db_inactive_product 1
        = Inl (HTTPException 404 ''Product not found or inactive'')"
proof -
  have a: "review_4 \<in> set (reviews db_inactive_product) \<and> is_active review_4"
    by (simp add: example_defs)
  have b: "product_id review_4 = 1"
    by (simp add: review_4_def)
  have c: "\<forall>p\<in>set (products db_inactive_product). p_id p = 1 \<longrightarrow> \<not> p_is_active p"
    by (simp add: example_defs)
  have d: "int32_ok 1"
    by (simp add: int32_ok_def)
  from a b c d global_listing_ignores_product [of review_4 db_inactive_product "[]" 1]
  show ?thesis by blast
qed


section \<open>Properties of the payment initiator\<close>



lemma configured_request:
  assumes "\<not> falsy (YOOKASSA_SHOP_ID cfg)" and "\<not> falsy (YOOKASSA_SECRET_KEY cfg)"
  shows "requests (snd (create_yookassa_payment cfg gateway key w oid amt email d))
           = requests w @ [(build_payload cfg oid amt email d, key)]"
  using assms
  by (cases "gateway (build_payload cfg oid amt email d) key")
     (simp_all add: create_yookassa_payment_def Let_def)

lemma falsy_iff: "falsy x = (x = None \<or> x = Some '''')"
  by (cases x) simp_all

text \<open>
  Claim C7. When the shop id or the secret key is unset or empty,
  \<open>create_yookassa_payment\<close> fails with the configuration error (the \<open>RuntimeError\<close> of
  the source) whatever the other arguments and the gateway are, and the world is the one
  before the call: the SDK's configuration is not set and no request has been sent.
\<close>

theorem missing_credentials_fail_first:
  assumes "YOOKASSA_SHOP_ID cfg = None \<or> YOOKASSA_SHOP_ID cfg = Some ''''
           \<or> YOOKASSA_SECRET_KEY cfg = None \<or> YOOKASSA_SECRET_KEY cfg = Some ''''"
  shows "create_yookassa_payment cfg gateway key w oid amt email d = (Inl RuntimeError, w)"
proof -
  from assms have "falsy (YOOKASSA_SHOP_ID cfg) \<or> falsy (YOOKASSA_SECRET_KEY cfg)"
    by (simp only: falsy_iff) blast
  then show ?thesis
    by (simp add: create_yookassa_payment_def)
qed

text \<open>
  A missing shop id, and an empty secret key.
\<close>

theorem missing_credentials_fail_first_witness:
  "YOOKASSA_SHOP_ID cfg_no_shop = None
   \<and> create_yookassa_payment cfg_no_shop gateway_pending ''key-1'' world_0 42 amount_100
        email_ab short_description = (Inl RuntimeError, world_0)
   \<and> requests world_0 = []
   \<and> YOOKASSA_SECRET_KEY cfg_empty_key = Some ''''
   \<and> create_yookassa_payment cfg_empty_key gateway_pending ''key-2'' world_0 42 amount_100
        email_ab short_description = (Inl RuntimeError, world_0)"
proof -
  have a: "YOOKASSA_SHOP_ID cfg_no_shop = None"
    by (simp add: cfg_no_shop_def)
  have b: "YOOKASSA_SECRET_KEY cfg_empty_key = Some ''''"
    by (simp add: cfg_empty_key_def)
  have c: "requests world_0 = []"
    by (simp add: world_0_def)
  from a have a': "YOOKASSA_SHOP_ID cfg_no_shop = None \<or> YOOKASSA_SHOP_ID cfg_no_shop = Some ''''
           \<or> YOOKASSA_SECRET_KEY cfg_no_shop = None \<or> YOOKASSA_SECRET_KEY cfg_no_shop = Some ''''"
    by blast
  from b have b': "YOOKASSA_SHOP_ID cfg_empty_key = None \<or> YOOKASSA_SHOP_ID cfg_empty_key = Some ''''
           \<or> YOOKASSA_SECRET_KEY cfg_empty_key = None \<or> YOOKASSA_SECRET_KEY cfg_empty_key = Some ''''"
    by blast
  from a b c
    missing_credentials_fail_first [OF a', of gateway_pending "''key-1''" world_0 42 amount_100
      email_ab short_description]
    missing_credentials_fail_first [OF b', of gateway_pending "''key-2''" world_0 42 amount_100
      email_ab short_description]
  show ?thesis by blast
qed

subsection \<open>The two-place format\<close>

text \<open>
  The equation of \<open>str_nat\<close> is applied by hand: as a rewrite rule it unfolds without
  end on a number that is not a numeral.
\<close>

declare str_nat.simps [simp del]

lemma digit_char_cases:
  "digit_char d \<in> set ''0123456789''"
proof -
  have "d mod 10 < length ''0123456789''" by simp
  then have "''0123456789'' ! (d mod 10) \<in> set ''0123456789''" by (rule nth_mem)
  then show ?thesis by (simp only: digit_char_def)
qed

lemma is_digit_digit_char: "is_digit (digit_char d)"
  unfolding is_digit_def by (rule digit_char_cases)

lemma is_digit_not_minus: "is_digit ch \<Longrightarrow> ch \<noteq> CHR ''-''"
  by (auto simp: is_digit_def)

lemma not_digit_point_minus: "\<not> is_digit CHR ''.'' \<and> \<not> is_digit CHR ''-''"
  by (simp add: is_digit_def)

lemma digit_value_nth:
  assumes "k < 10"
  shows "digit_value (''0123456789'' ! k) = k"
proof -
  from assms have "k = 0 \<or> k = 1 \<or> k = 2 \<or> k = 3 \<or> k = 4 \<or> k = 5 \<or> k = 6 \<or> k = 7
      \<or> k = 8 \<or> k = 9"
    by arith
  then show ?thesis
    by (elim disjE) (simp_all add: digit_value_def)
qed

lemma digit_value_digit_char: "digit_value (digit_char d) = d mod 10"
  unfolding digit_char_def by (rule digit_value_nth) simp

lemma str_nat_digits: "str_nat n \<noteq> [] \<and> list_all is_digit (str_nat n)"
proof (induction n rule: str_nat.induct)
  case (1 n)
  show ?case
  proof (cases "n < 10")
    case True
    then have "str_nat n = [digit_char n]" by (subst str_nat.simps) simp
    then show ?thesis by (simp add: is_digit_digit_char)
  next
    case False
    then have "str_nat n = str_nat (n div 10) @ [digit_char n]" by (subst str_nat.simps) simp
    with False 1 show ?thesis by (simp add: is_digit_digit_char)
  qed
qed

lemma str_nat_value: "foldl (\<lambda>a ch. 10 * a + digit_value ch) 0 (str_nat n) = n"
proof (induction n rule: str_nat.induct)
  case (1 n)
  show ?case
  proof (cases "n < 10")
    case True
    then have "str_nat n = [digit_char n]" by (subst str_nat.simps) simp
    with True show ?thesis by (simp add: digit_value_digit_char)
  next
    case False
    then have "str_nat n = str_nat (n div 10) @ [digit_char n]" by (subst str_nat.simps) simp
    with False 1 show ?thesis by (simp add: digit_value_digit_char)
  qed
qed

lemma fixed_2_decimals_shape:
  assumes "ip \<noteq> []" and "list_all is_digit ip" and "is_digit d1" and "is_digit d2"
  shows "fixed_2_decimals ((if s then ''-'' else '''') @ ip @ ''.'' @ [d1, d2])"
proof -
  let ?t = "ip @ ''.'' @ [d1, d2]"
  from assms obtain x xs where ip: "ip = x # xs" by (cases ip) auto
  with assms have "x \<noteq> CHR ''-''" by (auto dest: is_digit_not_minus)
  then have sel: "(if take 1 ((if s then ''-'' else '''') @ ?t) = ''-''
                   then drop 1 ((if s then ''-'' else '''') @ ?t)
                   else (if s then ''-'' else '''') @ ?t) = ?t"
    by (simp add: ip)
  have n: "length ?t - 3 = length ip" "length ?t - 2 = Suc (length ip)" "4 \<le> length ?t"
    using assms(1) by (simp_all add: Suc_le_eq)
  have "take (length ip) ?t = ip" by simp
  moreover have "?t ! (length ip) = CHR ''.''" by (simp add: nth_append)
  moreover have "drop (Suc (length ip)) ?t = [d1, d2]" by simp
  ultimately show ?thesis
    unfolding fixed_2_decimals_def Let_def sel n
    using assms by (simp add: ip)
qed

lemma format_2f_fixed: "fixed_2_decimals (format_2f (Finite s c e))"
  using fixed_2_decimals_shape [of "str_nat (rescale2 c e div 100)"
          "digit_char (rescale2 c e div 10)" "digit_char (rescale2 c e)" s]
  by (simp add: Let_def str_nat_digits is_digit_digit_char)

lemma hundredths_digits: "100 * (n div 100) + 10 * (n div 10 mod 10) + n mod 10 = (n::nat)"
proof -
  define m where "m = n div 10"
  define x where "x = m div 10"
  define y where "y = m mod 10"
  have a: "n div 100 = x" by (simp add: x_def m_def div_mult2_eq)
  have b: "m = 10 * x + y" by (simp add: x_def y_def)
  have c: "n = 10 * m + n mod 10" by (simp add: m_def)
  have "100 * x + 10 * y + n mod 10 = 10 * m + n mod 10"
    unfolding b by simp
  with c have "100 * x + 10 * y + n mod 10 = n" by simp
  then show ?thesis by (simp only: a [symmetric] y_def m_def)
qed

lemma format_2f_hundredths: "hundredths_of (format_2f (Finite s c e)) = rescale2 c e"
proof -
  let ?n = "rescale2 c e"
  have f: "filter is_digit (format_2f (Finite s c e))
             = str_nat (?n div 100) @ [digit_char (?n div 10), digit_char ?n]"
    using str_nat_digits [of "?n div 100"]
    by (simp add: Let_def is_digit_digit_char not_digit_point_minus list_all_iff filter_id_conv)
  show ?thesis
    unfolding hundredths_of_def f
    using hundredths_digits [of ?n]
    by (simp add: str_nat_value digit_value_digit_char)
qed

lemma rescale2_exact: "- 2 \<le> e \<Longrightarrow> rescale2 c e = c * 10 ^ nat (e + 2)"
  by (simp add: rescale2_def)

lemma round_half_even_nearest:
  "2 * \<bar>int (round_half_even c k) * 10 ^ k - int c\<bar> \<le> 10 ^ k"
proof -
  define P :: nat where "P = 10 ^ k"
  define q where "q = c div P"
  define r where "r = c mod P"
  have pk: "(10::int) ^ k = int P" by (simp add: P_def)
  have "int (q * P + r) = int c" by (simp add: q_def r_def)
  then have ic: "int c = int q * int P + int r" by (simp only: of_nat_add of_nat_mult)
  have r: "r < P" by (simp add: r_def P_def)
  show ?thesis
  proof (cases "2 * r > P \<or> (2 * r = P \<and> odd q)")
    case True
    then have "round_half_even c k = q + 1"
      by (simp add: round_half_even_def Let_def q_def r_def P_def)
    then have "int (round_half_even c k) * 10 ^ k - int c = int P - int r"
      unfolding pk ic by (simp add: algebra_simps)
    moreover from True r have "2 * \<bar>int P - int r\<bar> \<le> int P" by arith
    ultimately show ?thesis by (simp only: pk)
  next
    case False
    then have "round_half_even c k = q"
      by (simp add: round_half_even_def Let_def q_def r_def P_def)
    then have "int (round_half_even c k) * 10 ^ k - int c = - int r"
      unfolding pk ic by simp
    moreover from False have "2 * \<bar>- int r\<bar> \<le> int P" by arith
    ultimately show ?thesis by (simp only: pk)
  qed
qed

lemma rescale2_nearest:
  assumes "e < - 2"
  shows "2 * \<bar>int (rescale2 c e) * 10 ^ nat (- 2 - e) - int c\<bar> \<le> 10 ^ nat (- 2 - e)"
  using assms round_half_even_nearest [of c "nat (- 2 - e)"] by (simp add: rescale2_def)

subsection \<open>The request that is sent\<close>

lemma format_amount_100: "format_2f amount_100 = ''100.00''"
  by (simp add: amount_100_def rescale2_def Let_def str_nat.simps digit_char_def)

text \<open>
  Claim C8. With both credentials set, the call sends one request; its payload's
  \<open>amount.value\<close> is the amount under \<open>.2f\<close>, the single receipt item carries the same
  string, and both currencies are \<open>RUB\<close>. For a finite decimal amount the string is a
  fixed two-decimal numeral (optional sign, digits, point, two digits) whose digits read
  the amount in hundredths: exactly when the amount has at most two decimal places, and
  rounded to the nearest hundredth otherwise.
\<close>

theorem payload_amount_two_decimals:
  assumes "\<not> falsy (YOOKASSA_SHOP_ID cfg)" and "\<not> falsy (YOOKASSA_SECRET_KEY cfg)"
  shows "\<exists>p it.
      requests (snd (create_yookassa_payment cfg gateway key w oid amt email d))
        = requests w @ [(p, key)]
    \<and> items (receipt p) = [it]
    \<and> amount_value (amount p) = format_2f amt
    \<and> amount_value (item_amount it) = amount_value (amount p)
    \<and> currency (amount p) = ''RUB''
    \<and> currency (item_amount it) = ''RUB''
    \<and> (amt = Finite s c e \<longrightarrow>
          fixed_2_decimals (amount_value (amount p))
        \<and> hundredths_of (amount_value (amount p)) = rescale2 c e
        \<and> (- 2 \<le> e \<longrightarrow> rescale2 c e = c * 10 ^ nat (e + 2))
        \<and> (e < - 2 \<longrightarrow>
             2 * \<bar>int (rescale2 c e) * 10 ^ nat (- 2 - e) - int c\<bar> \<le> 10 ^ nat (- 2 - e)))"
proof -
  let ?p = "build_payload cfg oid amt email d"
  let ?it = "hd (items (receipt ?p))"
  have r: "requests (snd (create_yookassa_payment cfg gateway key w oid amt email d))
             = requests w @ [(?p, key)]"
    using assms by (rule configured_request)
  have i: "items (receipt ?p) = [?it]" by (simp add: build_payload_def)
  have v: "amount_value (amount ?p) = format_2f amt" by (simp add: build_payload_def)
  have iv: "amount_value (item_amount ?it) = amount_value (amount ?p)"
    by (simp add: build_payload_def)
  have cu: "currency (amount ?p) = ''RUB''" "currency (item_amount ?it) = ''RUB''"
    by (simp_all add: build_payload_def)
  have f: "amt = Finite s c e \<longrightarrow>
          fixed_2_decimals (amount_value (amount ?p))
        \<and> hundredths_of (amount_value (amount ?p)) = rescale2 c e
        \<and> (- 2 \<le> e \<longrightarrow> rescale2 c e = c * 10 ^ nat (e + 2))
        \<and> (e < - 2 \<longrightarrow>
             2 * \<bar>int (rescale2 c e) * 10 ^ nat (- 2 - e) - int c\<bar> \<le> 10 ^ nat (- 2 - e))"
    unfolding v
    using format_2f_fixed [of s c e] format_2f_hundredths [of s c e]
      rescale2_exact [of e c] rescale2_nearest [of e c]
    by blast
  from r i v iv cu f show ?thesis by blast
qed

text \<open>
  The scenario of the specification: order 42, amount \<open>Decimal("100.00")\<close>, payer
  \<open>a@b.com\<close> give \<open>amount.value = "100.00"\<close>.
\<close>

theorem payload_amount_two_decimals_witness:
  "\<not> falsy (YOOKASSA_SHOP_ID cfg_ok) \<and> \<not> falsy (YOOKASSA_SECRET_KEY cfg_ok)
   \<and> amount_100 = Finite False 10000 (- 2)
   \<and> (\<exists>p it.
        requests (snd (create_yookassa_payment cfg_ok gateway_pending ''key-1'' world_0 42
                         amount_100 email_ab short_description)) = [(p, ''key-1'')]
      \<and> items (receipt p) = [it]
      \<and> amount_value (amount p) = ''100.00''
      \<and> amount_value (item_amount it) = ''100.00''
      \<and> currency (amount p) = ''RUB''
      \<and> currency (item_amount it) = ''RUB''
      \<and> fixed_2_decimals (amount_value (amount p))
      \<and> hundredths_of (amount_value (amount p)) = 10000)"
proof -
  have a: "\<not> falsy (YOOKASSA_SHOP_ID cfg_ok)" and b: "\<not> falsy (YOOKASSA_SECRET_KEY cfg_ok)"
    by (simp_all add: cfg_ok_def)
  have c: "amount_100 = Finite False 10000 (- 2)" by (simp add: amount_100_def)
  have d: "rescale2 10000 (- 2) = 10000" by (simp add: rescale2_def)
  have w: "requests world_0 = []" by (simp add: world_0_def)
  from payload_amount_two_decimals [OF a b, of gateway_pending "''key-1''" world_0 42
         amount_100 email_ab short_description False 10000 "- 2"]
  have "\<exists>p it.
        requests (snd (create_yookassa_payment cfg_ok gateway_pending ''key-1'' world_0 42
                         amount_100 email_ab short_description)) = [(p, ''key-1'')]
      \<and> items (receipt p) = [it]
      \<and> amount_value (amount p) = ''100.00''
      \<and> amount_value (item_amount it) = ''100.00''
      \<and> currency (amount p) = ''RUB''
      \<and> currency (item_amount it) = ''RUB''
      \<and> fixed_2_decimals (amount_value (amount p))
      \<and> hundredths_of (amount_value (amount p)) = 10000"
    unfolding format_amount_100 w d using c by auto
  with a b c show ?thesis by blast
qed

text \<open>
  Claim C9. With both credentials set, the description of the single receipt item of the
  request is the first 128 characters of the description passed in: never longer than
  128, and the description itself when that has at most 128 characters. The payload's own
  description is not cut.
\<close>

theorem receipt_description_truncated:
  assumes "\<not> falsy (YOOKASSA_SHOP_ID cfg)" and "\<not> falsy (YOOKASSA_SECRET_KEY cfg)"
  shows "\<exists>p it.
      requests (snd (create_yookassa_payment cfg gateway key w oid amt email d))
        = requests w @ [(p, key)]
    \<and> items (receipt p) = [it]
    \<and> item_description it = take 128 d
    \<and> length (item_description it) \<le> 128
    \<and> (length d \<le> 128 \<longrightarrow> item_description it = d)
    \<and> description p = d"
proof -
  let ?p = "build_payload cfg oid amt email d"
  let ?it = "hd (items (receipt ?p))"
  have r: "requests (snd (create_yookassa_payment cfg gateway key w oid amt email d))
             = requests w @ [(?p, key)]"
    using assms by (rule configured_request)
  have i: "items (receipt ?p) = [?it]" by (simp add: build_payload_def)
  have t: "item_description ?it = take 128 d" by (simp add: build_payload_def)
  have l: "length (item_description ?it) \<le> 128" by (simp add: t)
  have s: "length d \<le> 128 \<longrightarrow> item_description ?it = d" by (simp add: t)
  have p: "description ?p = d" by (simp add: build_payload_def)
  from r i t l s p show ?thesis by blast
qed

text \<open>
  A description of 8 characters is kept; one of 200 characters is cut to 128.
\<close>

theorem receipt_description_truncated_witness:
  "\<not> falsy (YOOKASSA_SHOP_ID cfg_ok) \<and> \<not> falsy (YOOKASSA_SECRET_KEY cfg_ok)
   \<and> length short_description = 8 \<and> length long_description = 200
   \<and> (\<exists>p it.
        requests (snd (create_yookassa_payment cfg_ok gateway_pending ''key-1'' world_0 42
                         amount_100 email_ab short_description)) = [(p, ''key-1'')]
      \<and> items (receipt p) = [it]
      \<and> item_description it = short_description)
   \<and> (\<exists>p it.
        requests (snd (create_yookassa_payment cfg_ok gateway_pending ''key-2'' world_0 42
                         amount_100 email_ab long_description)) = [(p, ''key-2'')]
      \<and> items (receipt p) = [it]
      \<and> item_description it = replicate 128 120
      \<and> description p = long_description)"
proof -
  have a: "\<not> falsy (YOOKASSA_SHOP_ID cfg_ok)" and b: "\<not> falsy (YOOKASSA_SECRET_KEY cfg_ok)"
    by (simp_all add: cfg_ok_def)
  have ls: "length short_description = 8" by (simp add: short_description_def)
  have ll: "length long_description = 200" by (simp add: long_description_def)
  have tl: "take 128 long_description = replicate 128 120" by (simp add: long_description_def)
  have w: "requests world_0 = []" by (simp add: world_0_def)
  from receipt_description_truncated [OF a b, of gateway_pending "''key-1''" world_0 42
         amount_100 email_ab short_description]
  have s: "\<exists>p it.
        requests (snd (create_yookassa_payment cfg_ok gateway_pending ''key-1'' world_0 42
                         amount_100 email_ab short_description)) = [(p, ''key-1'')]
      \<and> items (receipt p) = [it]
      \<and> item_description it = short_description"
    unfolding w using ls by auto
  from receipt_description_truncated [OF a b, of gateway_pending "''key-2''" world_0 42
         amount_100 email_ab long_description]
  have l: "\<exists>p it.
        requests (snd (create_yookassa_payment cfg_ok gateway_pending ''key-2'' world_0 42
                         amount_100 email_ab long_description)) = [(p, ''key-2'')]
      \<and> items (receipt p) = [it]
      \<and> item_description it = replicate 128 120
      \<and> description p = long_description"
    unfolding w tl by auto
  from a b ls ll s l show ?thesis by blast
qed

end
